theory Spec2Isabelle
  imports Main
begin

section \<open>The batch runner \<open>Jars/script.py\<close>\<close>

text \<open>
  The whole program:
  \<^verbatim>\<open>
  import os
  import sys

  instances = ["020", "040", "060", "080", "100", "200", "400"]
  mode = sys.argv[1]

  for instance in instances:
      os.system("java -jar " + mode + ".jar " + instance + ">results/" + mode + "/" + instance)
  \<close>
  It reads one list (\<open>sys.argv\<close>), builds seven strings and hands each of them to
  \<open>os.system\<close>. Everything beyond that (the shell, the Java archive, the file system)
  is the environment of the script and is a parameter of the model.
\<close>

subsection \<open>Errors, effects and state\<close>

text \<open>The only exception the script can raise by itself: \<open>sys.argv[1]\<close> out of range.\<close>

datatype error = IndexError

text \<open>
  What the script does to its environment is recorded as a trace of events. A call
  \<open>os.system(cmd)\<close> hands \<open>cmd\<close> to a subshell (\<open>Started cmd\<close>) and returns, once
  that subshell has exited, its status (\<open>Exited status\<close>).
\<close>

datatype event = Started string | Exited int

text \<open>
  The state threaded through the script: the environment \<open>world\<close> (of an arbitrary
  type \<open>'w\<close>: the file system, the archives, whatever the invoked tools read and write)
  and the trace of the script's own effects so far, oldest first.
\<close>

record 'w state =
  world :: 'w
  trace :: "event list"

text \<open>
  The behaviour of the subshell is not code of this repository: it is the parameter
  \<open>sh\<close>, which maps a command line and the environment it runs in to an exit status and
  the environment it leaves. It is a total function: every invocation is taken to
  return. Command-line arguments are C strings, so \<open>mode\<close> holds no NUL character and
  \<open>os.system\<close> never rejects the command line it is given.
\<close>

type_synonym 'w shell = "string \<Rightarrow> 'w \<Rightarrow> int \<times> 'w"

subsection \<open>The script\<close>

definition instances :: "string list" where
  "instances = [''020'', ''040'', ''060'', ''080'', ''100'', ''200'', ''400'']"

text \<open>\<open>xs[n]\<close> for a non-negative index \<open>n\<close>: Python raises IndexError out of range.\<close>

definition subscript :: "string list \<Rightarrow> nat \<Rightarrow> error + string" where
  "subscript xs n = (if n < length xs then Inr (xs ! n) else Inl IndexError)"

text \<open>\<open>os.system(cmd)\<close>: blocks until the subshell has exited and returns its status.\<close>

definition os_system :: "'w shell \<Rightarrow> string \<Rightarrow> 'w state \<Rightarrow> int \<times> 'w state" where
  "os_system sh cmd s =
     (case sh cmd (world s) of
        (status, w') \<Rightarrow>
          (status, s\<lparr>world := w', trace := trace s @ [Started cmd, Exited status]\<rparr>))"

text \<open>
  The \<open>for\<close> loop over a list of instances. The value of \<open>os.system\<close> is an expression
  statement in the source: it is computed and dropped.
\<close>

fun for_instance :: "'w shell \<Rightarrow> string \<Rightarrow> string list \<Rightarrow> 'w state \<Rightarrow> 'w state" where
  "for_instance sh mode [] s = s"
| "for_instance sh mode (inst # rest) s =
     (case os_system sh
             (''java -jar '' @ mode @ ''.jar '' @ inst @ ''>results/'' @ mode @ ''/'' @ inst) s of
        (_, s') \<Rightarrow> for_instance sh mode rest s')"

text \<open>
  The script, started with \<open>sys.argv = argv\<close> in the environment \<open>w\<close>. It returns how it
  ended (\<open>Inl\<close> an uncaught exception, \<open>Inr ()\<close> the end of the file) and the final state.
\<close>

definition script :: "'w shell \<Rightarrow> string list \<Rightarrow> 'w \<Rightarrow> (error + unit) \<times> 'w state" where
  "script sh argv w =
     (case subscript argv 1 of
        Inl e \<Rightarrow> (Inl e, \<lparr>world = w, trace = []\<rparr>)
      | Inr mode \<Rightarrow> (Inr (), for_instance sh mode instances \<lparr>world = w, trace = []\<rparr>))"

text \<open>
  The exit status of the interpreter: 0 when the script reaches its end, 1 when an
  exception is not caught.
\<close>

definition exit_status :: "error + unit \<Rightarrow> int" where
  "exit_status r = (case r of Inl _ \<Rightarrow> 1 | Inr _ \<Rightarrow> 0)"

subsection \<open>Reading a trace\<close>

text \<open>The command lines handed to \<open>os.system\<close>, in the order of the calls.\<close>

fun commands :: "event list \<Rightarrow> string list" where
  "commands [] = []"
| "commands (Started c # t) = c # commands t"
| "commands (Exited _ # t) = commands t"

section \<open>The loop\<close>

lemma commands_append: "commands (t @ u) = commands t @ commands u"
  by (induction t rule: commands.induct) simp_all

lemma commands_for_instance:
  "commands (trace (for_instance sh mode insts s)) =
     commands (trace s) @
     map (\<lambda>i. ''java -jar '' @ mode @ ''.jar '' @ i @ ''>results/'' @ mode @ ''/'' @ i) insts"
  by (induction insts arbitrary: s)
     (simp_all add: os_system_def commands_append split: prod.splits)

lemma world_for_instance:
  "world (for_instance sh mode insts s) =
     fold (\<lambda>i w. snd (sh (''java -jar '' @ mode @ ''.jar '' @ i @ ''>results/'' @ mode @ ''/'' @ i) w))
       insts (world s)"
  by (induction insts arbitrary: s) (simp_all add: os_system_def split: prod.splits)

lemma trace_for_instance:
  "\<exists>sts. length sts = length insts \<and>
     trace (for_instance sh mode insts s) =
       trace s @
       concat (map2 (\<lambda>i st.
           [Started (''java -jar '' @ mode @ ''.jar '' @ i @ ''>results/'' @ mode @ ''/'' @ i),
            Exited st]) insts sts)"
proof (induction insts arbitrary: s)
  case Nil
  show ?case by simp
next
  case (Cons i insts)
  obtain st s' where step:
    "os_system sh (''java -jar '' @ mode @ ''.jar '' @ i @ ''>results/'' @ mode @ ''/'' @ i) s
       = (st, s')"
    by (cases "os_system sh
         (''java -jar '' @ mode @ ''.jar '' @ i @ ''>results/'' @ mode @ ''/'' @ i) s")
  then have tr: "trace s' = trace s @
      [Started (''java -jar '' @ mode @ ''.jar '' @ i @ ''>results/'' @ mode @ ''/'' @ i),
       Exited st]"
    by (auto simp: os_system_def split: prod.splits)
  from Cons.IH [of s'] obtain sts where
    sts: "length sts = length insts"
      "trace (for_instance sh mode insts s') =
         trace s' @
         concat (map2 (\<lambda>i st.
           [Started (''java -jar '' @ mode @ ''.jar '' @ i @ ''>results/'' @ mode @ ''/'' @ i),
            Exited st]) insts sts)"
    by blast
  have "length (st # sts) = length (i # insts)"
    using sts(1) by simp
  moreover have "trace (for_instance sh mode (i # insts) s) =
       trace s @
       concat (map2 (\<lambda>i st.
           [Started (''java -jar '' @ mode @ ''.jar '' @ i @ ''>results/'' @ mode @ ''/'' @ i),
            Exited st]) (i # insts) (st # sts))"
    using step tr sts(2) by simp
  ultimately show ?case by blast
qed

lemma script_mode:
  "script sh (p # m # r) w =
     (Inr (), for_instance sh m instances \<lparr>world = w, trace = []\<rparr>)"
  by (simp add: script_def subscript_def)

lemma commands_script:
  "commands (trace (snd (script sh (p # m # r) w))) =
     map (\<lambda>i. ''java -jar '' @ m @ ''.jar '' @ i @ ''>results/'' @ m @ ''/'' @ i) instances"
  by (simp add: script_mode commands_for_instance)

lemma world_script:
  "world (snd (script sh (p # m # r) w)) =
     fold (\<lambda>i w. snd (sh (''java -jar '' @ m @ ''.jar '' @ i @ ''>results/'' @ m @ ''/'' @ i) w))
       instances w"
  by (simp add: script_mode world_for_instance)

text \<open>
  Whatever can be observed of the environment (\<open>obs\<close>: the directories that exist, say)
  and is left as it was by every invocation is left as it was by the loop.
\<close>

lemma for_instance_preserves:
  assumes "\<And>c w. obs (snd (sh c w)) = obs w"
  shows "obs (world (for_instance sh mode insts s)) = obs (world s)"
  unfolding world_for_instance
  by (induction insts arbitrary: s rule: rev_induct) (simp_all add: assms)

lemma script_preserves:
  assumes "\<And>c w. obs (snd (sh c w)) = obs w"
  shows "obs (world (snd (script sh argv w))) = obs w"
  using for_instance_preserves [of obs sh, OF assms]
  by (simp add: script_def split: sum.splits)

text \<open>
  The text of a command line behind the \<open>>\<close> that the source writes after the
  instance.
\<close>

lemma target_of_command:
  "drop (length (''java -jar '' @ m @ ''.jar '' @ i @ ''>''))
     (''java -jar '' @ m @ ''.jar '' @ i @ ''>results/'' @ m @ ''/'' @ i)
   = ''results/'' @ m @ ''/'' @ i"
proof -
  have "(''java -jar '' @ m @ ''.jar '' @ i @ ''>'') @ (''results/'' @ m @ ''/'' @ i)
      = ''java -jar '' @ m @ ''.jar '' @ i @ ''>results/'' @ m @ ''/'' @ i"
    by simp
  then have "''results/'' @ m @ ''/'' @ i
      = drop (length (''java -jar '' @ m @ ''.jar '' @ i @ ''>''))
          (''java -jar '' @ m @ ''.jar '' @ i @ ''>results/'' @ m @ ''/'' @ i)"
    unfolding append_eq_conv_conj by (rule conjunct2)
  then show ?thesis by (rule sym)
qed

lemma map2_over_map: "map2 F xs (map G xs) = map (\<lambda>x. F x (G x)) xs"
  by (induction xs) simp_all

text \<open>
  The scenario of the specification, run on the model: the shell reports a failure
  (wait status 256, exit code 1) for instance 100 and success for the others.
\<close>

lemma scenario_failure_on_100:
  "script (\<lambda>c w. (if c = ''java -jar baseline.jar 100>results/baseline/100'' then 256 else 0, w))
       [''script.py'', ''baseline''] () =
     (Inr (),
      \<lparr>world = (),
       trace =
        [Started ''java -jar baseline.jar 020>results/baseline/020'', Exited 0,
         Started ''java -jar baseline.jar 040>results/baseline/040'', Exited 0,
         Started ''java -jar baseline.jar 060>results/baseline/060'', Exited 0,
         Started ''java -jar baseline.jar 080>results/baseline/080'', Exited 0,
         Started ''java -jar baseline.jar 100>results/baseline/100'', Exited 256,
         Started ''java -jar baseline.jar 200>results/baseline/200'', Exited 0,
         Started ''java -jar baseline.jar 400>results/baseline/400'', Exited 0]\<rparr>)"
  by (simp add: script_def subscript_def instances_def os_system_def)

section \<open>The claims\<close>

text \<open>
  C1. For every mode \<open>m\<close> (the first command-line argument) the runner issues exactly
  seven invocations, one per instance identifier and in the order of the fixed list
  020, 040, 060, 080, 100, 200, 400: the \<open>k\<close>-th command line carries the \<open>k\<close>-th
  identifier in its argument position, right after \<open>java -jar m.jar\<close> and a blank.
\<close>

theorem one_invocation_per_instance:
  "length (commands (trace (snd (script sh (p # m # r) w)))) = 7 \<and>
   map (\<lambda>c. take 3 (drop (length (''java -jar '' @ m @ ''.jar '')) c))
     (commands (trace (snd (script sh (p # m # r) w))))
     = [''020'', ''040'', ''060'', ''080'', ''100'', ''200'', ''400''] \<and>
   instances = [''020'', ''040'', ''060'', ''080'', ''100'', ''200'', ''400'']"
  unfolding commands_script by (simp add: instances_def)

text \<open>
  C2. For every mode \<open>m\<close> and every instance identifier \<open>i\<close> of the fixed list, the
  command line handed to the shell is the launcher prefix \<open>java -jar\<close> with its blank,
  then \<open>m\<close>, then the literal \<open>.jar\<close> with its blank, then \<open>i\<close> and nothing else in
  the argument position, then the redirection suffix (the operator \<open>>\<close> and the
  target).
\<close>

theorem command_is_concatenation:
  "commands (trace (snd (script sh (p # m # r) w))) =
     map (\<lambda>i. (''java -jar '' @ m @ ''.jar '' @ i) @ (''>'' @ ''results/'' @ m @ ''/'' @ i))
       instances"
  unfolding commands_script by simp

text \<open>
  C3. For every mode \<open>m\<close> and every instance identifier \<open>i\<close>, what the command line
  holds behind the redirection operator, that is behind \<open>java -jar m.jar i>\<close>, is exactly
  the concatenation of \<open>results/\<close>, \<open>m\<close>, \<open>/\<close> and \<open>i\<close>.
\<close>

theorem redirection_target:
  "map2 (\<lambda>i c. drop (length (''java -jar '' @ m @ ''.jar '' @ i @ ''>'')) c)
     instances (commands (trace (snd (script sh (p # m # r) w))))
   = map (\<lambda>i. ''results/'' @ m @ ''/'' @ i) instances"
  unfolding commands_script map2_over_map target_of_command by (rule refl)

text \<open>
  C4, as the specification words it: the path is built with no separator between
  \<open>results\<close> and the mode, so that for some mode the redirection target is not of the
  form \<open>results/<mode>/<instance>\<close>. The source writes the separator itself, in the
  literal \<open>>results/\<close>: there is no such mode, and for the mode \<open>baseline\<close> the seven
  command lines are the ones below.
\<close>

theorem no_mode_breaks_the_path_form:
  "\<not> (\<exists>m. map2 (\<lambda>i c. drop (length (''java -jar '' @ m @ ''.jar '' @ i @ ''>'')) c)
            instances
            (commands (trace (snd (script (\<lambda>c w. (0, w)) [''script.py'', m] ()))))
          \<noteq> map (\<lambda>i. ''results/'' @ m @ ''/'' @ i) instances) \<and>
   commands (trace (snd (script (\<lambda>c w. (0, w)) [''script.py'', ''baseline''] ()))) =
     [''java -jar baseline.jar 020>results/baseline/020'',
      ''java -jar baseline.jar 040>results/baseline/040'',
      ''java -jar baseline.jar 060>results/baseline/060'',
      ''java -jar baseline.jar 080>results/baseline/080'',
      ''java -jar baseline.jar 100>results/baseline/100'',
      ''java -jar baseline.jar 200>results/baseline/200'',
      ''java -jar baseline.jar 400>results/baseline/400'']"
  unfolding commands_script map2_over_map target_of_command by (simp add: instances_def)

text \<open>
  C4, amended: the path is built with the separator \<open>/\<close> between \<open>results\<close> and the
  mode and between the mode and the instance. For every mode \<open>m\<close> and every instance
  \<open>i\<close> the redirection target splits into \<open>results/\<close> (eight characters, the separator
  among them), then \<open>m\<close>, then the character \<open>/\<close>, then \<open>i\<close>: it has the form
  \<open>results/<mode>/<instance>\<close> whatever the mode is.
\<close>

theorem target_has_both_separators:
  "map2 (\<lambda>i c.
       let t = drop (length (''java -jar '' @ m @ ''.jar '' @ i @ ''>'')) c
       in (take 8 t, take (length m) (drop 8 t), drop 8 t ! length m,
           drop (Suc (length m)) (drop 8 t)))
     instances (commands (trace (snd (script sh (p # m # r) w))))
   = map (\<lambda>i. (''results/'', m, CHR ''/'', i)) instances"
  unfolding commands_script map2_over_map Let_def target_of_command by simp

text \<open>
  C5. Started with no command-line argument (\<open>sys.argv\<close> has no element at index 1),
  the runner ends at once with an IndexError: no command has been handed to
  \<open>os.system\<close>, the trace is empty and the environment is the one it was started in.
\<close>

theorem missing_argument_fails_first:
  "length argv < 2 \<Longrightarrow>
     script sh argv w = (Inl IndexError, \<lparr>world = w, trace = []\<rparr>) \<and>
     commands (trace (snd (script sh argv w))) = []"
  by (simp add: script_def subscript_def)

theorem missing_argument_fails_first_witness:
  "length [''script.py''] < 2 \<and>
   script (\<lambda>c w. (0, w)) [''script.py''] () = (Inl IndexError, \<lparr>world = (), trace = []\<rparr>) \<and>
   commands (trace (snd (script (\<lambda>c w. (0, w)) [''script.py''] ()))) = []"
  using missing_argument_fails_first [of "[''script.py'']" "\<lambda>c w. (0, w)" "()"] by simp

text \<open>
  C6. The status of an invocation is never looked at and never ends the batch:
  whatever the shell \<open>sh\<close> reports for each command, the runner issues the same commands
  as under a shell that always reports success. In particular the last two, which
  follow the invocation for 100, are the ones for 200 and 400.
\<close>

theorem failures_do_not_abort:
  "commands (trace (snd (script sh (p # m # r) w))) =
     commands (trace (snd (script (\<lambda>c w. (0, w)) (p # m # r) w))) \<and>
   drop 5 (commands (trace (snd (script sh (p # m # r) w)))) =
     [''java -jar '' @ m @ ''.jar 200>results/'' @ m @ ''/200'',
      ''java -jar '' @ m @ ''.jar 400>results/'' @ m @ ''/400'']"
  unfolding commands_script by (simp add: instances_def)

text \<open>
  C7. The invocations follow one another and never overlap: the trace of a run is the
  start of the first command, its exit, the start of the second, its exit, and so on
  for the seven commands. Each call of \<open>os.system\<close> has returned a status before the
  next iteration starts the next command.
\<close>

theorem invocations_do_not_overlap:
  "\<exists>sts. length sts = 7 \<and>
     trace (snd (script sh (p # m # r) w)) =
       concat (map2 (\<lambda>c st. [Started c, Exited st])
         (map (\<lambda>i. ''java -jar '' @ m @ ''.jar '' @ i @ ''>results/'' @ m @ ''/'' @ i)
            instances) sts)"
proof -
  obtain sts where sts: "length sts = length instances"
    "trace (for_instance sh m instances \<lparr>world = w, trace = []\<rparr>) =
       trace \<lparr>world = w, trace = []\<rparr> @
       concat (map2 (\<lambda>i st.
           [Started (''java -jar '' @ m @ ''.jar '' @ i @ ''>results/'' @ m @ ''/'' @ i),
            Exited st]) instances sts)"
    using trace_for_instance [of instances sh m "\<lparr>world = w, trace = []\<rparr>"] by blast
  have "length sts = 7"
    using sts(1) by (simp add: instances_def)
  moreover have "trace (snd (script sh (p # m # r) w)) =
       concat (map2 (\<lambda>c st. [Started c, Exited st])
         (map (\<lambda>i. ''java -jar '' @ m @ ''.jar '' @ i @ ''>results/'' @ m @ ''/'' @ i)
            instances) sts)"
    using sts(2) by (simp add: script_mode zip_map1 case_prod_unfold comp_def)
  ultimately show ?thesis by blast
qed

text \<open>
  C8. The runner creates no directory itself: the environment it leaves is the one it
  was started in, changed by the seven shell invocations in turn and by nothing else.
  So whatever part \<open>dirs\<close> of the environment (the directories that exist) no
  invocation changes is, after the run, as it was before.
\<close>

theorem runner_changes_nothing_itself:
  "world (snd (script sh (p # m # r) w)) =
     fold (\<lambda>i w. snd (sh (''java -jar '' @ m @ ''.jar '' @ i @ ''>results/'' @ m @ ''/'' @ i) w))
       instances w \<and>
   ((\<forall>c w. dirs (snd (sh c w)) = dirs w) \<longrightarrow>
      dirs (world (snd (script sh (p # m # r) w))) = dirs w)"
  using script_preserves [of dirs sh "p # m # r" w] by (simp add: world_script)

text \<open>
  A witness: the environment is a pair of the directories and the files that exist,
  and every invocation adds a file (named after its command line) and no directory.
\<close>

theorem runner_changes_nothing_itself_witness:
  "(\<forall>c w. fst (snd ((\<lambda>c (d, f). (0, (d, insert c f))) c (w :: string set \<times> string set)))
           = fst w) \<and>
   fst (world (snd (script (\<lambda>c (d, f). (0, (d, insert c f)))
                      [''script.py'', ''baseline''] ({''results''}, {})))) = {''results''}"
proof -
  have unchanged:
    "\<forall>c w. fst (snd ((\<lambda>c (d, f). (0::int, (d, insert c f))) c
                        (w :: string set \<times> string set))) = fst w"
    by (simp add: case_prod_unfold)
  have "fst (world (snd (script (\<lambda>c (d, f). (0, (d, insert c f)))
                           [''script.py'', ''baseline''] ({''results''}, {}))))
          = fst ({''results''}, {} :: string set)"
    using runner_changes_nothing_itself
      [where sh = "\<lambda>c (d, f). (0, (d, insert c f))" and dirs = fst
         and p = "''script.py''" and m = "''baseline''" and r = "[]"
         and w = "({''results''}, {})"] unchanged
    by blast
  then show ?thesis
    using unchanged by simp
qed

text \<open>
  C9. The command lines are a function of the first command-line argument alone: two
  runs with the same \<open>sys.argv[1]\<close> issue the same commands, whatever the program name,
  the further arguments, the environment and the behaviour of the shell are.
\<close>

theorem commands_depend_on_mode_only:
  "commands (trace (snd (script sh (p # m # r) w))) =
     commands (trace (snd (script sh' (p' # m # r') w')))"
  unfolding commands_script by (rule refl)

text \<open>
  C10. Whenever the first command-line argument is there, the script reaches its end
  without an exception and the interpreter exits with status 0, whatever statuses the
  shell reports for the seven invocations.
\<close>

theorem completes_with_status_zero:
  "fst (script sh (p # m # r) w) = Inr () \<and>
   exit_status (fst (script sh (p # m # r) w)) = 0"
  by (simp add: script_mode exit_status_def)

end
